theory Spec2Isabelle
  imports Main "HOL-Library.Word"
begin

section \<open>The monitor service: data model\<close>

text \<open>
  Go strings are byte sequences; they are modelled as \<open>string\<close>, whose characters
  are 8-bit values. An \<open>error\<close> value is observed by the handlers only through the
  text its \<open>Error()\<close> method returns, which is what \<open>%v\<close> prints.
\<close>

datatype error = Err (Error: string)

record Config =
  Password :: string
  StartScript :: string
  StopScript :: string
  UpdateScript :: string
  RestoreSaveScript :: string
  GitDir :: string
  PidFile :: string
  Container :: string

text \<open>
  \<open>Response.Message\<close> is an \<open>interface{}\<close>; the handlers store a string, a bool or
  a \<open>map[string]string\<close> in it.
\<close>

datatype message =
    String string
  | Bool bool
  | StringMap "string \<rightharpoonup> string"

record Response =
  Success :: bool
  Message :: message

definition NewResponse :: "bool \<Rightarrow> message \<Rightarrow> Response" where
  "NewResponse success message = \<lparr>Success = success, Message = message\<rparr>"

subsection \<open>The libraries the handlers call\<close>

text \<open>
  \<open>exec.Cmd\<close>: \<open>Args\<close> holds the command name followed by its arguments. The field
  \<open>Path\<close>, which \<open>exec.Command\<close> may resolve against the host's search path, is left
  out.
\<close>

record exec_Cmd =
  Args :: "string list"

definition exec_Command :: "string \<Rightarrow> string list \<Rightarrow> exec_Cmd" where
  "exec_Command name arg = \<lparr>Args = name # arg\<rparr>"

text \<open>go-git: a hash is a byte array, printed in hexadecimal by \<open>String()\<close>.\<close>

type_synonym plumbing_Hash = "8 word list"

definition hextable :: string where
  "hextable = ''0123456789abcdef''"

definition hex_EncodeToString :: "8 word list \<Rightarrow> string" where
  "hex_EncodeToString src =
     concat (map (\<lambda>v. [hextable ! unat (drop_bit 4 v), hextable ! unat (and v 0x0f)]) src)"

definition Hash_String :: "plumbing_Hash \<Rightarrow> string" where
  "Hash_String h = hex_EncodeToString h"

text \<open>
  A commit time is an instant with the zone offset the commit recorded. Rendering it
  with \<open>Time.Format\<close> is left to the host (\<open>time_Format\<close> below).
\<close>

record time_Time =
  unix_sec :: int
  zone_offset :: int

record object_Signature =
  Name :: string
  Email :: string
  When :: time_Time

record object_Commit =
  Commit_Hash :: plumbing_Hash
  Author :: object_Signature
  Committer :: object_Signature
  Commit_Message :: string

record plumbing_Reference =
  Reference_Name :: string
  Reference_Hash :: plumbing_Hash

text \<open>
  An opened repository answers the two queries the Commit handler makes; each returns
  a value or an error.
\<close>

record git_Repository =
  Head :: "error + plumbing_Reference"
  CommitObject :: "plumbing_Hash \<Rightarrow> error + object_Commit"

text \<open>
  Docker's inspection result: \<open>ContainerJSON\<close> embeds a pointer to
  \<open>ContainerJSONBase\<close>, whose \<open>State\<close> is a pointer too. A nil pointer is \<open>None\<close>.
\<close>

record types_ContainerState =
  Status :: string
  Running :: bool

record types_ContainerJSONBase =
  ID :: string
  State :: "types_ContainerState option"

record types_ContainerJSON =
  ContainerJSONBase :: "types_ContainerJSONBase option"

text \<open>
  The host is everything outside the process: the file system, the scripts, the
  repository and the container runtime. Its state has the abstract type \<open>'s\<close>; running
  a script may change it in any way, the read-only queries only look at it.
  \<open>unicode_CaseRanges\<close> is the lower-case mapping of the Unicode case table for the
  code points above ASCII.
\<close>

record 's host =
  cmd_Run :: "exec_Cmd \<Rightarrow> 's \<Rightarrow> error option \<times> 's"
  cmd_CombinedOutput :: "exec_Cmd \<Rightarrow> 's \<Rightarrow> (string \<times> error option) \<times> 's"
  git_PlainOpen :: "string \<Rightarrow> 's \<Rightarrow> error + git_Repository"
  time_Format :: "time_Time \<Rightarrow> string \<Rightarrow> string"
  unicode_CaseRanges :: "nat \<Rightarrow> nat"

record 's docker_Client =
  ContainerInspect :: "string \<Rightarrow> 's \<Rightarrow> types_ContainerJSON \<times> error option"

record 's Monitor =
  Conf :: Config
  Docker :: "'s docker_Client"

text \<open>
  Every call that leaves the process is recorded, in order, next to the host state, so
  that "the runner is never invoked" and "later stages are not attempted" are
  statements about the trace.
\<close>

datatype call =
    Exec_Run exec_Cmd
  | Exec_CombinedOutput exec_Cmd
  | Git_PlainOpen string
  | Git_Head
  | Git_CommitObject plumbing_Hash
  | Docker_ContainerInspect string

record 's world =
  ext :: 's
  trace :: "call list"

definition Run :: "'s host \<Rightarrow> exec_Cmd \<Rightarrow> 's world \<Rightarrow> error option \<times> 's world" where
  "Run h cmd w =
     (case cmd_Run h cmd (ext w) of
        (err, s') \<Rightarrow> (err, \<lparr>ext = s', trace = trace w @ [Exec_Run cmd]\<rparr>))"

definition CombinedOutput ::
  "'s host \<Rightarrow> exec_Cmd \<Rightarrow> 's world \<Rightarrow> (string \<times> error option) \<times> 's world" where
  "CombinedOutput h cmd w =
     (case cmd_CombinedOutput h cmd (ext w) of
        (res, s') \<Rightarrow> (res, \<lparr>ext = s', trace = trace w @ [Exec_CombinedOutput cmd]\<rparr>))"

definition PlainOpen ::
  "'s host \<Rightarrow> string \<Rightarrow> 's world \<Rightarrow> (error + git_Repository) \<times> 's world" where
  "PlainOpen h path w =
     (git_PlainOpen h path (ext w), w\<lparr>trace := trace w @ [Git_PlainOpen path]\<rparr>)"

definition repo_Head ::
  "git_Repository \<Rightarrow> 's world \<Rightarrow> (error + plumbing_Reference) \<times> 's world" where
  "repo_Head repo w = (Head repo, w\<lparr>trace := trace w @ [Git_Head]\<rparr>)"

definition repo_CommitObject ::
  "git_Repository \<Rightarrow> plumbing_Hash \<Rightarrow> 's world \<Rightarrow> (error + object_Commit) \<times> 's world" where
  "repo_CommitObject repo h w =
     (CommitObject repo h, w\<lparr>trace := trace w @ [Git_CommitObject h]\<rparr>)"

definition Inspect ::
  "'s docker_Client \<Rightarrow> string \<Rightarrow> 's world \<Rightarrow> (types_ContainerJSON \<times> error option) \<times> 's world" where
  "Inspect cli container w =
     (ContainerInspect cli container (ext w),
      w\<lparr>trace := trace w @ [Docker_ContainerInspect container]\<rparr>)"

subsection \<open>Go's string library\<close>

text \<open>
  The handlers call \<open>strings.ToLower\<close>, \<open>strings.TrimSpace\<close> and \<open>strings.SplitN\<close>.
  They work on the UTF-8 reading of the bytes, so the decoder and the encoder of
  package \<open>utf8\<close> come first. A rune is a code point, a natural number.
\<close>

definition RuneError :: nat where "RuneError = 0xFFFD"
definition RuneSelf :: nat where "RuneSelf = 0x80"
definition MaxRune :: nat where "MaxRune = 0x10FFFF"
definition UTFMax :: nat where "UTFMax = 4"

abbreviation byte :: "char \<Rightarrow> nat" where
  "byte c \<equiv> of_char c"

text \<open>
  \<open>utf8.DecodeRuneInString\<close>: the rune at the front of the string and its width in
  bytes; \<open>(RuneError, 0)\<close> for the empty string and \<open>(RuneError, 1)\<close> for a byte that
  starts no well-formed sequence. The conditions on the first byte are those of the
  table \<open>first\<close>, the bounds \<open>lo\<close> and \<open>hi\<close> on the second those of \<open>acceptRanges\<close>.
\<close>

definition utf8_DecodeRuneInString :: "string \<Rightarrow> nat \<times> nat" where
  "utf8_DecodeRuneInString s =
     (let n = length s in
      if n < 1 then (RuneError, 0)
      else
        let s0 = byte (s ! 0) in
        if s0 < RuneSelf then (s0, 1)
        else if s0 < 0xC2 \<or> 0xF4 < s0 then (RuneError, 1)
        else
          let sz = (if s0 < 0xE0 then 2 else if s0 < 0xF0 then 3 else 4 :: nat);
              lo = (if s0 = 0xE0 then 0xA0 else if s0 = 0xF0 then 0x90 else 0x80 :: nat);
              hi = (if s0 = 0xED then 0x9F else if s0 = 0xF4 then 0x8F else 0xBF :: nat)
          in
          if n < sz then (RuneError, 1)
          else
            let s1 = byte (s ! 1) in
            if s1 < lo \<or> hi < s1 then (RuneError, 1)
            else if sz \<le> 2 then ((s0 mod 0x20) * 0x40 + s1 mod 0x40, 2)
            else
              let s2 = byte (s ! 2) in
              if s2 < 0x80 \<or> 0xBF < s2 then (RuneError, 1)
              else if sz \<le> 3 then
                ((s0 mod 0x10) * 0x1000 + (s1 mod 0x40) * 0x40 + s2 mod 0x40, 3)
              else
                let s3 = byte (s ! 3) in
                if s3 < 0x80 \<or> 0xBF < s3 then (RuneError, 1)
                else
                  ((s0 mod 0x08) * 0x40000 + (s1 mod 0x40) * 0x1000
                     + (s2 mod 0x40) * 0x40 + s3 mod 0x40, 4))"

definition utf8_RuneStart :: "char \<Rightarrow> bool" where
  "utf8_RuneStart b = (\<not> (0x80 \<le> byte b \<and> byte b < 0xC0))"

text \<open>
  The loop of \<open>utf8.DecodeLastRuneInString\<close> that walks back from \<open>start\<close> to the
  first byte that can start a rune, no further than \<open>lim\<close>.
\<close>

function back_to_start :: "string \<Rightarrow> int \<Rightarrow> int \<Rightarrow> int" where
  "back_to_start s start lim =
     (if start \<ge> lim then
        (if utf8_RuneStart (s ! nat start) then start else back_to_start s (start - 1) lim)
      else start)"
  by pat_completeness auto
termination
  by (relation "measure (\<lambda>(s, start, lim). nat (start - lim + 1))") auto

declare back_to_start.simps [simp del]

definition utf8_DecodeLastRuneInString :: "string \<Rightarrow> nat \<times> nat" where
  "utf8_DecodeLastRuneInString s =
     (let end = int (length s) in
      if end = 0 then (RuneError, 0)
      else
        let start = end - 1;
            r = byte (s ! nat start) in
        if r < RuneSelf then (r, 1)
        else
          let lim = (if end - int UTFMax < 0 then 0 else end - int UTFMax);
              start = back_to_start s (start - 1) lim;
              start = (if start < 0 then 0 else start);
              (r, size) = utf8_DecodeRuneInString (drop (nat start) s)
          in if start + int size \<noteq> end then (RuneError, 1) else (r, size))"

text \<open>\<open>utf8.EncodeRune\<close>: a rune that is no code point is written as \<open>RuneError\<close>.\<close>

definition encode3 :: "nat \<Rightarrow> string" where
  "encode3 r =
     [char_of (0xE0 + r div 0x1000), char_of (0x80 + (r div 0x40) mod 0x40),
      char_of (0x80 + r mod 0x40)]"

definition utf8_EncodeRune :: "nat \<Rightarrow> string" where
  "utf8_EncodeRune r =
     (if r \<le> 0x7F then [char_of r]
      else if r \<le> 0x7FF then [char_of (0xC0 + r div 0x40), char_of (0x80 + r mod 0x40)]
      else if r > MaxRune \<or> (0xD800 \<le> r \<and> r \<le> 0xDFFF) then encode3 RuneError
      else if r \<le> 0xFFFF then encode3 r
      else
        [char_of (0xF0 + r div 0x40000), char_of (0x80 + (r div 0x1000) mod 0x40),
         char_of (0x80 + (r div 0x40) mod 0x40), char_of (0x80 + r mod 0x40)])"

text \<open>
  \<open>for i, c := range s\<close>: the runes of a string from left to right, each with the
  number of bytes it was read from.
\<close>

function range_string :: "string \<Rightarrow> (nat \<times> nat) list" where
  "range_string s =
     (if s = [] then []
      else utf8_DecodeRuneInString s # range_string (drop (snd (utf8_DecodeRuneInString s)) s))"
  by pat_completeness auto
termination
proof (relation "measure length")
  show "wf (measure length)" by simp
next
  fix s :: string
  assume "s \<noteq> []"
  then have "0 < snd (utf8_DecodeRuneInString s)"
    by (cases s) (simp_all add: utf8_DecodeRuneInString_def Let_def)
  with \<open>s \<noteq> []\<close> show "(drop (snd (utf8_DecodeRuneInString s)) s, s) \<in> measure length"
    by simp
qed

declare range_string.simps [simp del]

text \<open>
  Package \<open>unicode\<close>. \<open>IsSpace\<close> switches on the Latin-1 spaces and looks the other
  runes up in the \<open>White_Space\<close> table; \<open>ToLower\<close> handles ASCII itself and looks the
  other runes up in the case table, which is the host's.
\<close>

definition unicode_IsSpace :: "nat \<Rightarrow> bool" where
  "unicode_IsSpace r =
     (if r \<le> 0xFF then
        r = 0x09 \<or> r = 0x0A \<or> r = 0x0B \<or> r = 0x0C \<or> r = 0x0D \<or> r = 0x20
          \<or> r = 0x85 \<or> r = 0xA0
      else
        r = 0x1680 \<or> (0x2000 \<le> r \<and> r \<le> 0x200A) \<or> r = 0x2028 \<or> r = 0x2029
          \<or> r = 0x202F \<or> r = 0x205F \<or> r = 0x3000)"

definition unicode_ToLower :: "'s host \<Rightarrow> nat \<Rightarrow> nat" where
  "unicode_ToLower h r =
     (if r \<le> 0x7F then (if 0x41 \<le> r \<and> r \<le> 0x5A then r + (0x61 - 0x41) else r)
      else unicode_CaseRanges h r)"

text \<open>
  \<open>strings.Map\<close> writes the mapped rune of every rune of the string; a byte that is
  not UTF-8 reads as \<open>RuneError\<close>. A mapping drops a rune by returning a negative
  value; the lower-case mapping never does, so runes are natural numbers here and
  nothing is dropped.
\<close>

definition strings_Map :: "(nat \<Rightarrow> nat) \<Rightarrow> string \<Rightarrow> string" where
  "strings_Map mapping s = concat (map (\<lambda>(c, width). utf8_EncodeRune (mapping c)) (range_string s))"

definition is_upper_byte :: "char \<Rightarrow> bool" where
  "is_upper_byte c = (0x41 \<le> byte c \<and> byte c \<le> 0x5A)"

definition strings_ToLower :: "'s host \<Rightarrow> string \<Rightarrow> string" where
  "strings_ToLower h s =
     (let isASCII = list_all (\<lambda>c. byte c < RuneSelf) s;
          hasUpper = list_ex is_upper_byte s
      in
      if isASCII then
        (if \<not> hasUpper then s
         else map (\<lambda>c. if is_upper_byte c then char_of (byte c + (0x61 - 0x41)) else c) s)
      else strings_Map (unicode_ToLower h) s)"

text \<open>
  \<open>strings.TrimSpace\<close> is \<open>TrimFunc\<close> with \<open>unicode.IsSpace\<close>: \<open>indexFunc\<close> finds the
  first rune from the left that is no space, \<open>lastIndexFunc\<close> the first from the
  right; both return \<open>-1\<close> when there is none. The recursion of \<open>lastIndexFunc\<close> is
  on the prefix \<open>s[0:i]\<close> that its loop still has to look at.
\<close>

fun index_in_range :: "(nat \<Rightarrow> bool) \<Rightarrow> bool \<Rightarrow> nat \<Rightarrow> (nat \<times> nat) list \<Rightarrow> int" where
  "index_in_range f truth i [] = - 1"
| "index_in_range f truth i ((r, width) # rs) =
     (if f r = truth then int i else index_in_range f truth (i + width) rs)"

definition strings_indexFunc :: "string \<Rightarrow> (nat \<Rightarrow> bool) \<Rightarrow> bool \<Rightarrow> int" where
  "strings_indexFunc s f truth = index_in_range f truth 0 (range_string s)"

function strings_lastIndexFunc :: "string \<Rightarrow> (nat \<Rightarrow> bool) \<Rightarrow> bool \<Rightarrow> int" where
  "strings_lastIndexFunc s f truth =
     (if s = [] then - 1
      else
        let i = length s - snd (utf8_DecodeLastRuneInString s) in
        if f (fst (utf8_DecodeLastRuneInString s)) = truth then int i
        else strings_lastIndexFunc (take i s) f truth)"
  by pat_completeness auto
termination
proof (relation "measure (\<lambda>(s, f, truth). length s)")
  show "wf (measure (\<lambda>(s, f, truth). length s))" by simp
next
  fix s :: string and f :: "nat \<Rightarrow> bool" and truth :: bool and i :: nat
  assume ne: "s \<noteq> []" and i: "i = length s - snd (utf8_DecodeLastRuneInString s)"
  have walk: "back_to_start t a lim \<le> a" for t a lim
  proof (induction t a lim rule: back_to_start.induct)
    case (1 s start lim)
    then show ?case by (subst back_to_start.simps) auto
  qed
  have "0 < snd (utf8_DecodeLastRuneInString s)"
    unfolding utf8_DecodeLastRuneInString_def Let_def
    using ne walk [of s "int (length s) - 1 - 1" 0]
      walk [of s "int (length s) - 1 - 1" "int (length s) - int UTFMax"]
    by (auto split: prod.splits)
  with ne i show "((take i s, f, truth), (s, f, truth)) \<in> measure (\<lambda>(s, f, truth). length s)"
    by simp
qed

declare strings_lastIndexFunc.simps [simp del]

definition strings_TrimLeftFunc :: "string \<Rightarrow> (nat \<Rightarrow> bool) \<Rightarrow> string" where
  "strings_TrimLeftFunc s f =
     (let i = strings_indexFunc s f False in
      if i = - 1 then [] else drop (nat i) s)"

definition strings_TrimRightFunc :: "string \<Rightarrow> (nat \<Rightarrow> bool) \<Rightarrow> string" where
  "strings_TrimRightFunc s f =
     (let i = strings_lastIndexFunc s f False;
          i = (if i \<ge> 0 \<and> byte (s ! nat i) \<ge> RuneSelf
               then i + int (snd (utf8_DecodeRuneInString (drop (nat i) s)))
               else i + 1)
      in take (nat i) s)"

definition strings_TrimFunc :: "string \<Rightarrow> (nat \<Rightarrow> bool) \<Rightarrow> string" where
  "strings_TrimFunc s f = strings_TrimRightFunc (strings_TrimLeftFunc s f) f"

definition strings_TrimSpace :: "string \<Rightarrow> string" where
  "strings_TrimSpace s = strings_TrimFunc s unicode_IsSpace"

text \<open>
  \<open>strings.Index\<close>: the position of the first instance of \<open>substr\<close>, or \<open>-1\<close>.
\<close>

fun index_at :: "string \<Rightarrow> string \<Rightarrow> nat \<Rightarrow> int" where
  "index_at [] substr i = (if substr = [] then int i else - 1)"
| "index_at (c # cs) substr i =
     (if take (length substr) (c # cs) = substr then int i else index_at cs substr (i + 1))"

definition strings_Index :: "string \<Rightarrow> string \<Rightarrow> int" where
  "strings_Index s substr = index_at s substr 0"

text \<open>
  \<open>strings.SplitN\<close> is \<open>genSplit\<close> with \<open>sepSave = 0\<close>. The count \<open>n\<close> is a natural
  number here: a negative count, which asks for all substrings, is not modelled. The
  last argument of the two loops is the number of iterations left.
\<close>

fun explode_loop :: "string \<Rightarrow> nat \<Rightarrow> string list" where
  "explode_loop s 0 = [s]"
| "explode_loop s (Suc k) =
     (let (ch, size) = utf8_DecodeRuneInString s in
      (if ch = RuneError then utf8_EncodeRune RuneError else take size s)
        # explode_loop (drop size s) k)"

definition explode :: "string \<Rightarrow> nat \<Rightarrow> string list" where
  "explode s n =
     (let l = length (range_string s);
          n = (if n > l then l else n)
      in if n > 0 then explode_loop s (n - 1) else [])"

fun genSplit_loop :: "string \<Rightarrow> string \<Rightarrow> nat \<Rightarrow> nat \<Rightarrow> string list" where
  "genSplit_loop s sep sepSave 0 = [s]"
| "genSplit_loop s sep sepSave (Suc k) =
     (let m = strings_Index s sep in
      if m < 0 then [s]
      else take (nat m + sepSave) s # genSplit_loop (drop (nat m + length sep) s) sep sepSave k)"

definition genSplit :: "string \<Rightarrow> string \<Rightarrow> nat \<Rightarrow> nat \<Rightarrow> string list" where
  "genSplit s sep sepSave n =
     (if n = 0 then []
      else if sep = [] then explode s n
      else genSplit_loop s sep sepSave (n - 1))"

definition strings_SplitN :: "string \<Rightarrow> string \<Rightarrow> nat \<Rightarrow> string list" where
  "strings_SplitN s sep n = genSplit s sep 0 n"

section \<open>The handlers of the Monitor\<close>

text \<open>
  A handler ends by rendering one \<open>Response\<close>; the model returns that response and
  the world after the calls the handler made. A handler that can panic returns the
  panic in place of the response.
\<close>

datatype panic = NilPointerDereference | IndexOutOfRange

text \<open>
  The request, as far as the handlers read it: the parsed form, a list of values for
  every key (empty when the key is absent). \<open>FormValue\<close> is the first value or \<open>""\<close>.
\<close>

record Request =
  Form :: "string \<Rightarrow> string list"

definition FormValue :: "Request \<Rightarrow> string \<Rightarrow> string" where
  "FormValue r key = (case Form r key of [] \<Rightarrow> [] | v # vs \<Rightarrow> v)"

definition Start :: "'s host \<Rightarrow> 's Monitor \<Rightarrow> 's world \<Rightarrow> Response \<times> 's world" where
  "Start h m w =
     (let cmd = exec_Command (StartScript (Conf m)) [];
          success = True;
          message = ''Server has been started'';
          (err, w) = Run h cmd w;
          (success, message) =
            (case err of
               Some e \<Rightarrow> (False, ''Server failed to start ('' @ Error e @ '')'')
             | None \<Rightarrow> (success, message))
      in (NewResponse success (String message), w))"

definition Stop :: "'s host \<Rightarrow> 's Monitor \<Rightarrow> 's world \<Rightarrow> Response \<times> 's world" where
  "Stop h m w =
     (let cmd = exec_Command (StopScript (Conf m)) [];
          success = True;
          message = ''Server has been stopped'';
          (err, w) = Run h cmd w;
          (success, message) =
            (case err of
               Some e \<Rightarrow> (False, ''Server failed to stop ('' @ Error e @ '')'')
             | None \<Rightarrow> (success, message))
      in (NewResponse success (String message), w))"

definition Update :: "'s host \<Rightarrow> 's Monitor \<Rightarrow> 's world \<Rightarrow> Response \<times> 's world" where
  "Update h m w =
     (let cmd = exec_Command (UpdateScript (Conf m)) [];
          success = True;
          message = ''Server has been updated'';
          (err, w) = Run h cmd w;
          (success, message) =
            (case err of
               Some e \<Rightarrow> (False, ''Server failed to update ('' @ Error e @ '')'')
             | None \<Rightarrow> (success, message))
      in (NewResponse success (String message), w))"

definition RestoreSave ::
  "'s host \<Rightarrow> 's Monitor \<Rightarrow> Request \<Rightarrow> 's world \<Rightarrow> Response \<times> 's world" where
  "RestoreSave h m r w =
     (let ckey = strings_ToLower h (FormValue r ''ckey'');
          date = FormValue r ''date''
      in
      if ckey = [] \<or> date = [] then (NewResponse False (String ''Invalid request''), w)
      else
        let cmd = exec_Command (RestoreSaveScript (Conf m)) [ckey, date];
            success = True;
            ((bmessage, err), w) = CombinedOutput h cmd w;
            message = bmessage;
            (success, message) =
              (case err of
                 Some e \<Rightarrow>
                   (False, ''Script failed to run: '' @ Error e @ [CHR 0x0A, CHR 0x0A] @ message)
               | None \<Rightarrow> (success, message))
        in (NewResponse success (String message), w))"

definition Commit :: "'s host \<Rightarrow> 's Monitor \<Rightarrow> 's world \<Rightarrow> (panic + Response) \<times> 's world" where
  "Commit h m w =
     (let (repo, w) = PlainOpen h (GitDir (Conf m)) w in
      case repo of
        Inl err \<Rightarrow>
          (Inr (NewResponse False (String (''Failed to open git repo ('' @ Error err @ '')''))), w)
      | Inr repo \<Rightarrow>
          (let (head, w) = repo_Head repo w in
           case head of
             Inl err \<Rightarrow>
               (Inr (NewResponse False (String (''Failed to get HEAD ref ('' @ Error err @ '')''))),
                w)
           | Inr head \<Rightarrow>
               (let (commit, w) = repo_CommitObject repo (Reference_Hash head) w in
                case commit of
                  Inl err \<Rightarrow>
                    (Inr (NewResponse False
                       (String (''Failed to get HEAD commit ('' @ Error err @ '')''))), w)
                | Inr commit \<Rightarrow>
                    (case strings_SplitN (strings_TrimSpace (Commit_Message commit)) [CHR 0x0A] 2 of
                       [] \<Rightarrow> (Inl IndexOutOfRange, w)
                     | summary # rest \<Rightarrow>
                         (Inr (NewResponse True
                            (StringMap
                               [''message'' \<mapsto> summary,
                                ''date'' \<mapsto>
                                  time_Format h (When (Committer commit))
                                    ''Mon Jan 02 15:04:05 2006 -0700'',
                                ''sha'' \<mapsto> Hash_String (Commit_Hash commit)])), w)))))"

text \<open>
  \<open>info.State.Running\<close> goes through two pointers; reading through a nil one panics.
\<close>

definition info_State_Running :: "types_ContainerJSON \<Rightarrow> panic + bool" where
  "info_State_Running info =
     (case ContainerJSONBase info of
        None \<Rightarrow> Inl NilPointerDereference
      | Some base \<Rightarrow>
          (case State base of
             None \<Rightarrow> Inl NilPointerDereference
           | Some state \<Rightarrow> Inr (Running state)))"

text \<open>
  In \<open>err != nil || info.State.Running == false\<close> the right operand is evaluated only
  when \<open>err\<close> is nil.
\<close>

definition IsRunning :: "'s Monitor \<Rightarrow> 's world \<Rightarrow> (panic + Response) \<times> 's world" where
  "IsRunning m w =
     (let running = True;
          ((info, err), w) = Inspect (Docker m) (Container (Conf m)) w
      in
      if err \<noteq> None then (Inr (NewResponse True (Bool False)), w)
      else
        (case info_State_Running info of
           Inl p \<Rightarrow> (Inl p, w)
         | Inr r \<Rightarrow> (Inr (NewResponse True (Bool (if r = False then False else running))), w)))"

section \<open>Notions the statements use\<close>

text \<open>
  The ASCII white space of Go's \<open>strings\<close> package (its table \<open>asciiSpace\<close>): tab,
  line feed, vertical tab, form feed, carriage return and space.
\<close>

definition asciiSpace :: "char \<Rightarrow> bool" where
  "asciiSpace c =
     (c = CHR 0x09 \<or> c = CHR 0x0A \<or> c = CHR 0x0B \<or> c = CHR 0x0C \<or> c = CHR 0x0D \<or> c = CHR '' '')"

text \<open>
  The summary line as the specification words it, for comparison with what Commit
  computes: the text before the first line break, with surrounding white space
  trimmed.
\<close>

definition spec_first_line :: "string \<Rightarrow> string" where
  "spec_first_line msg = strings_TrimSpace (takeWhile (\<lambda>c. c \<noteq> CHR 0x0A) msg)"

text \<open>The entry of a rendered \<open>map[string]string\<close> message under a key.\<close>

definition reported :: "panic + Response \<Rightarrow> string \<Rightarrow> string option" where
  "reported out key =
     (case out of
        Inl p \<Rightarrow> None
      | Inr resp \<Rightarrow> (case Message resp of StringMap entries \<Rightarrow> entries key | _ \<Rightarrow> None))"

text \<open>Whether a message is a string, the shape of a diagnostic.\<close>

fun is_String :: "message \<Rightarrow> bool" where
  "is_String (String s) = True"
| "is_String (Bool b) = False"
| "is_String (StringMap entries) = False"

text \<open>Whether an inspection result carries a \<open>State\<close> record.\<close>

definition carries_State :: "types_ContainerJSON \<Rightarrow> bool" where
  "carries_State info =
     (case ContainerJSONBase info of None \<Rightarrow> False | Some base \<Rightarrow> State base \<noteq> None)"

section \<open>A concrete host\<close>

text \<open>
  A small host on which the handlers can be run: its state counts the scripts that
  have run, every script ends with the given verdict, and the repository at the
  configured path is the given one.
\<close>

definition demo_Conf :: Config where
  "demo_Conf =
     \<lparr>Password = ''hunter2'', StartScript = ''./start.sh'', StopScript = ''./stop.sh'',
      UpdateScript = ''./update.sh'', RestoreSaveScript = ''./restoresave.sh'',
      GitDir = ''/srv/game'', PidFile = ''/run/game.pid'', Container = ''game''\<rparr>"

definition demo_host :: "error option \<Rightarrow> (error + git_Repository) \<Rightarrow> nat host" where
  "demo_host verdict repo =
     \<lparr>cmd_Run = (\<lambda>cmd s. (verdict, Suc s)),
      cmd_CombinedOutput =
        (\<lambda>cmd s.
           ((case verdict of None \<Rightarrow> ''save restored'' | Some e \<Rightarrow> ''no such save'', verdict),
            Suc s)),
      git_PlainOpen =
        (\<lambda>path s. if path = ''/srv/game'' then repo else Inl (Err ''repository does not exist'')),
      time_Format = (\<lambda>t layout. ''Thu Jan 01 00:00:00 1970 +0000''),
      unicode_CaseRanges = (\<lambda>r. r)\<rparr>"

definition no_repo :: "error + git_Repository" where
  "no_repo = Inl (Err ''repository does not exist'')"

definition demo_Monitor :: "types_ContainerJSON \<times> error option \<Rightarrow> nat Monitor" where
  "demo_Monitor inspected =
     \<lparr>Conf = demo_Conf, Docker = \<lparr>ContainerInspect = (\<lambda>container s. inspected)\<rparr>\<rparr>"

definition no_container :: "types_ContainerJSON \<times> error option" where
  "no_container = (\<lparr>ContainerJSONBase = None\<rparr>, Some (Err ''No such container: game''))"

definition demo_world :: "nat world" where
  "demo_world = \<lparr>ext = 0, trace = []\<rparr>"

text \<open>A request whose form carries the two fields of RestoreSave.\<close>

definition demo_Request :: "string \<Rightarrow> string \<Rightarrow> Request" where
  "demo_Request ckey date =
     \<lparr>Form = (\<lambda>key. if key = ''ckey'' then [ckey] else if key = ''date'' then [date] else [])\<rparr>"

text \<open>
  Repositories: one whose HEAD commit has the given message, one without a HEAD and
  one whose HEAD names an object that cannot be loaded.
\<close>

definition demo_hash :: plumbing_Hash where
  "demo_hash =
     [0x1f, 0x2e, 0x3d, 0x4c, 0x5b, 0x6a, 0x79, 0x88, 0x97, 0xa6,
      0xb5, 0xc4, 0xd3, 0xe2, 0xf1, 0x00, 0x0f, 0x10, 0xab, 0xcd]"

definition demo_Signature :: object_Signature where
  "demo_Signature =
     \<lparr>Name = ''Dev'', Email = ''dev@example.org'', When = \<lparr>unix_sec = 0, zone_offset = 0\<rparr>\<rparr>"

definition demo_commit :: "string \<Rightarrow> object_Commit" where
  "demo_commit msg =
     \<lparr>Commit_Hash = demo_hash, Author = demo_Signature, Committer = demo_Signature,
      Commit_Message = msg\<rparr>"

definition demo_head :: plumbing_Reference where
  "demo_head = \<lparr>Reference_Name = ''refs/heads/master'', Reference_Hash = demo_hash\<rparr>"

definition demo_Repository :: "string \<Rightarrow> git_Repository" where
  "demo_Repository msg =
     \<lparr>Head = Inr demo_head,
      CommitObject =
        (\<lambda>h. if h = demo_hash then Inr (demo_commit msg) else Inl (Err ''object not found''))\<rparr>"

definition demo_repo :: "string \<Rightarrow> error + git_Repository" where
  "demo_repo msg = Inr (demo_Repository msg)"

definition unborn_repo :: "error + git_Repository" where
  "unborn_repo =
     Inr \<lparr>Head = Inl (Err ''reference not found''),
          CommitObject = (\<lambda>h. Inl (Err ''object not found''))\<rparr>"

definition dangling_repo :: "error + git_Repository" where
  "dangling_repo =
     Inr \<lparr>Head = Inr demo_head, CommitObject = (\<lambda>h. Inl (Err ''object not found''))\<rparr>"

text \<open>
  Inspection results: a container that runs or not, and a result that reports no
  error but carries no \<open>State\<close>.
\<close>

definition inspected :: "bool \<Rightarrow> types_ContainerJSON \<times> error option" where
  "inspected running =
     (\<lparr>ContainerJSONBase =
         Some \<lparr>ID = ''4f1c'',
               State =
                 Some \<lparr>Status = (if running then ''running'' else ''exited''),
                       Running = running\<rparr>\<rparr>\<rparr>,
      None)"

definition stateless :: "types_ContainerJSON \<times> error option" where
  "stateless = (\<lparr>ContainerJSONBase = Some \<lparr>ID = ''4f1c'', State = None\<rparr>\<rparr>, None)"

section \<open>Facts about the library functions\<close>

lemma ToLower_Nil: "strings_ToLower h [] = []"
  by (simp add: strings_ToLower_def)

lemma EncodeRune_nonempty: "utf8_EncodeRune r \<noteq> []"
  by (simp add: utf8_EncodeRune_def encode3_def)

lemma Map_nonempty: "s \<noteq> [] \<Longrightarrow> strings_Map f s \<noteq> []"
  unfolding strings_Map_def
  by (subst range_string.simps) (simp add: EncodeRune_nonempty split: prod.splits)

lemma ToLower_nonempty: "s \<noteq> [] \<Longrightarrow> strings_ToLower h s \<noteq> []"
  by (simp add: strings_ToLower_def Let_def Map_nonempty)

lemma ToLower_eq_Nil: "strings_ToLower h s = [] \<longleftrightarrow> s = []"
  using ToLower_nonempty [of s h] by (auto simp: ToLower_Nil)

lemma asciiSpace_byte: "asciiSpace c \<Longrightarrow> byte c < RuneSelf \<and> \<not> is_upper_byte c \<and> unicode_IsSpace (byte c)"
  by (auto simp: asciiSpace_def RuneSelf_def is_upper_byte_def unicode_IsSpace_def)

lemma ToLower_asciiSpace: "list_all asciiSpace s \<Longrightarrow> strings_ToLower h s = s"
  by (auto simp: strings_ToLower_def Let_def list_all_iff list_ex_iff dest: asciiSpace_byte)

lemma range_string_ascii:
  "byte c < RuneSelf \<Longrightarrow> range_string (c # cs) = (byte c, 1) # range_string cs"
  by (subst range_string.simps) (simp add: utf8_DecodeRuneInString_def)

lemma index_in_range_spaces:
  "list_all asciiSpace s \<Longrightarrow> index_in_range unicode_IsSpace False i (range_string s) = - 1"
proof (induction s arbitrary: i)
  case Nil
  then show ?case by (subst range_string.simps) simp
next
  case (Cons c cs)
  then show ?case by (simp add: range_string_ascii asciiSpace_byte)
qed

lemma TrimSpace_spaces: "list_all asciiSpace s \<Longrightarrow> strings_TrimSpace s = []"
  by (simp add: strings_TrimSpace_def strings_TrimFunc_def strings_TrimLeftFunc_def
      strings_TrimRightFunc_def strings_indexFunc_def index_in_range_spaces Let_def)

lemma index_at_byte:
  "index_at s [c] i = (if c \<in> set s then int (i + length (takeWhile (\<lambda>x. x \<noteq> c) s)) else - 1)"
  by (induction s arbitrary: i) auto

lemma SplitN_first_line:
  "\<exists>rest. strings_SplitN s [c] 2 = takeWhile (\<lambda>x. x \<noteq> c) s # rest"
proof (cases "c \<in> set s")
  case True
  then show ?thesis
    by (simp add: strings_SplitN_def genSplit_def strings_Index_def index_at_byte numeral_2_eq_2
          takeWhile_eq_take [symmetric])
next
  case False
  then have all: "takeWhile (\<lambda>x. x \<noteq> c) s = s"
    by auto
  from False show ?thesis
    by (subst all) (simp add: strings_SplitN_def genSplit_def strings_Index_def index_at_byte numeral_2_eq_2)
qed

lemma hextable_nth: "i < 16 \<Longrightarrow> hextable ! i \<in> set hextable"
  by (rule nth_mem) (simp add: hextable_def)

lemma nibble_bounds: "unat (drop_bit 4 (v :: 8 word)) < 16" "unat (and v 0x0f) < 16"
proof -
  have "unat (drop_bit 4 v) = unat v div 16"
    by (simp add: drop_bit_eq_div unat_div)
  moreover have "unat v < 256" using unsigned_less [of v] by simp
  ultimately show "unat (drop_bit 4 v) < 16" by simp
  have "unat (and v 0x0f) \<le> unat (0x0f :: 8 word)"
    by (rule word_and_le1 [THEN word_le_nat_alt [THEN iffD1]])
  then show "unat (and v 0x0f) < 16" by simp
qed

lemma hex_digits: "set (hex_EncodeToString src) \<subseteq> set hextable"
  by (auto simp: hex_EncodeToString_def hextable_nth nibble_bounds)

lemma hex_length: "length (hex_EncodeToString src) = 2 * length src"
  by (induction src) (simp_all add: hex_EncodeToString_def)

section \<open>Start, Stop and Update\<close>

text \<open>
  C1. Start, Stop and Update run the configured script with no arguments. When the
  runner reports no error the response is \<open>success = true\<close> with the fixed message of
  the action; when it reports an error \<open>e\<close> the response is \<open>success = false\<close> with
  "Server failed to start|stop|update (e)". The script is the only call made.
\<close>

theorem lifecycle_envelopes:
  "(cmd_Run h (exec_Command (StartScript (Conf m)) []) (ext w) = (None, s) \<longrightarrow>
      Start h m w =
        (\<lparr>Success = True, Message = String ''Server has been started''\<rparr>,
         \<lparr>ext = s, trace = trace w @ [Exec_Run (exec_Command (StartScript (Conf m)) [])]\<rparr>))
   \<and> (cmd_Run h (exec_Command (StartScript (Conf m)) []) (ext w) = (Some e, s) \<longrightarrow>
      Start h m w =
        (\<lparr>Success = False, Message = String (''Server failed to start ('' @ Error e @ '')'')\<rparr>,
         \<lparr>ext = s, trace = trace w @ [Exec_Run (exec_Command (StartScript (Conf m)) [])]\<rparr>))
   \<and> (cmd_Run h (exec_Command (StopScript (Conf m)) []) (ext w) = (None, s) \<longrightarrow>
      Stop h m w =
        (\<lparr>Success = True, Message = String ''Server has been stopped''\<rparr>,
         \<lparr>ext = s, trace = trace w @ [Exec_Run (exec_Command (StopScript (Conf m)) [])]\<rparr>))
   \<and> (cmd_Run h (exec_Command (StopScript (Conf m)) []) (ext w) = (Some e, s) \<longrightarrow>
      Stop h m w =
        (\<lparr>Success = False, Message = String (''Server failed to stop ('' @ Error e @ '')'')\<rparr>,
         \<lparr>ext = s, trace = trace w @ [Exec_Run (exec_Command (StopScript (Conf m)) [])]\<rparr>))
   \<and> (cmd_Run h (exec_Command (UpdateScript (Conf m)) []) (ext w) = (None, s) \<longrightarrow>
      Update h m w =
        (\<lparr>Success = True, Message = String ''Server has been updated''\<rparr>,
         \<lparr>ext = s, trace = trace w @ [Exec_Run (exec_Command (UpdateScript (Conf m)) [])]\<rparr>))
   \<and> (cmd_Run h (exec_Command (UpdateScript (Conf m)) []) (ext w) = (Some e, s) \<longrightarrow>
      Update h m w =
        (\<lparr>Success = False, Message = String (''Server failed to update ('' @ Error e @ '')'')\<rparr>,
         \<lparr>ext = s, trace = trace w @ [Exec_Run (exec_Command (UpdateScript (Conf m)) [])]\<rparr>))"
  by (simp add: Start_def Stop_def Update_def Run_def NewResponse_def)

theorem lifecycle_envelopes_witness:
  "Start (demo_host None no_repo) (demo_Monitor no_container) demo_world =
     (\<lparr>Success = True, Message = String ''Server has been started''\<rparr>,
      \<lparr>ext = 1, trace = [Exec_Run \<lparr>Args = [''./start.sh'']\<rparr>]\<rparr>)
   \<and> Stop (demo_host None no_repo) (demo_Monitor no_container) demo_world =
     (\<lparr>Success = True, Message = String ''Server has been stopped''\<rparr>,
      \<lparr>ext = 1, trace = [Exec_Run \<lparr>Args = [''./stop.sh'']\<rparr>]\<rparr>)
   \<and> Update (demo_host None no_repo) (demo_Monitor no_container) demo_world =
     (\<lparr>Success = True, Message = String ''Server has been updated''\<rparr>,
      \<lparr>ext = 1, trace = [Exec_Run \<lparr>Args = [''./update.sh'']\<rparr>]\<rparr>)
   \<and> Start (demo_host (Some (Err ''exit status 1'')) no_repo) (demo_Monitor no_container)
       demo_world =
     (\<lparr>Success = False, Message = String ''Server failed to start (exit status 1)''\<rparr>,
      \<lparr>ext = 1, trace = [Exec_Run \<lparr>Args = [''./start.sh'']\<rparr>]\<rparr>)
   \<and> Stop (demo_host (Some (Err ''exit status 1'')) no_repo) (demo_Monitor no_container)
       demo_world =
     (\<lparr>Success = False, Message = String ''Server failed to stop (exit status 1)''\<rparr>,
      \<lparr>ext = 1, trace = [Exec_Run \<lparr>Args = [''./stop.sh'']\<rparr>]\<rparr>)
   \<and> Update (demo_host (Some (Err ''exit status 1'')) no_repo) (demo_Monitor no_container)
       demo_world =
     (\<lparr>Success = False, Message = String ''Server failed to update (exit status 1)''\<rparr>,
      \<lparr>ext = 1, trace = [Exec_Run \<lparr>Args = [''./update.sh'']\<rparr>]\<rparr>)"
  using
    lifecycle_envelopes [of "demo_host None no_repo" "demo_Monitor no_container" demo_world 1]
    lifecycle_envelopes [of "demo_host (Some (Err ''exit status 1'')) no_repo"
      "demo_Monitor no_container" demo_world 1 "Err ''exit status 1''"]
  by (simp add: demo_host_def demo_Monitor_def demo_world_def demo_Conf_def exec_Command_def)

section \<open>IsRunning\<close>

text \<open>
  C2, as stated for every outcome of the inspection, fails: an inspection that
  returns no error and a result without a \<open>State\<close> record makes IsRunning panic, so no
  response is rendered, neither with the message \<open>false\<close> nor with any other.
\<close>

theorem IsRunning_no_envelope_counterexample:
  "ContainerInspect (Docker (demo_Monitor stateless)) (Container (Conf (demo_Monitor stateless)))
       (ext demo_world) =
     (\<lparr>ContainerJSONBase = Some \<lparr>ID = ''4f1c'', State = None\<rparr>\<rparr>, None)
   \<and> fst (IsRunning (demo_Monitor stateless) demo_world) = Inl NilPointerDereference
   \<and> fst (IsRunning (demo_Monitor stateless) demo_world) \<noteq>
       Inr \<lparr>Success = True, Message = Bool False\<rparr>
   \<and> fst (IsRunning (demo_Monitor stateless) demo_world) \<noteq>
       Inr \<lparr>Success = True, Message = Bool True\<rparr>"
  by (simp add: IsRunning_def Inspect_def info_State_Running_def demo_Monitor_def stateless_def)

text \<open>
  C2, amended. For every inspection that returns an error or a result carrying a
  \<open>State\<close> record, IsRunning inspects the configured container once and answers
  \<open>success = true\<close>; the message is the boolean \<open>true\<close> only when the inspection
  returned no error and its state says running, and \<open>false\<close> in every other such
  case, an inspection error included, which is never surfaced as a failure.
\<close>

theorem IsRunning_envelope:
  assumes "ContainerInspect (Docker m) (Container (Conf m)) (ext w) = (info, err)"
    and "err \<noteq> None \<or> carries_State info"
  shows "IsRunning m w =
     (Inr \<lparr>Success = True, Message = Bool (err = None \<and> info_State_Running info = Inr True)\<rparr>,
      w\<lparr>trace := trace w @ [Docker_ContainerInspect (Container (Conf m))]\<rparr>)"
  using assms
  by (auto simp: IsRunning_def Inspect_def NewResponse_def info_State_Running_def carries_State_def
      split: option.splits)

theorem IsRunning_envelope_witness:
  "fst (IsRunning (demo_Monitor (inspected True)) demo_world) =
     Inr \<lparr>Success = True, Message = Bool True\<rparr>
   \<and> fst (IsRunning (demo_Monitor (inspected False)) demo_world) =
     Inr \<lparr>Success = True, Message = Bool False\<rparr>
   \<and> fst (IsRunning (demo_Monitor no_container) demo_world) =
     Inr \<lparr>Success = True, Message = Bool False\<rparr>"
  using
    IsRunning_envelope [of "demo_Monitor (inspected True)" demo_world "fst (inspected True)" None]
    IsRunning_envelope [of "demo_Monitor (inspected False)" demo_world "fst (inspected False)" None]
    IsRunning_envelope [of "demo_Monitor no_container" demo_world "fst no_container"
      "Some (Err ''No such container: game'')"]
  by (simp add: demo_Monitor_def inspected_def no_container_def carries_State_def
      info_State_Running_def)

text \<open>
  C10. IsRunning reads \<open>info.State.Running\<close> with no nil check. The read is
  skipped when the inspection returned an error; when it returned none, the handler
  panics with a nil dereference exactly if the result carries no \<open>State\<close> record, and
  renders a response otherwise.
\<close>

theorem IsRunning_panics_iff_no_State:
  assumes "ContainerInspect (Docker m) (Container (Conf m)) (ext w) = (info, err)"
  shows "((fst (IsRunning m w) = Inl NilPointerDereference) = (err = None \<and> \<not> carries_State info))
     \<and> ((\<exists>resp. fst (IsRunning m w) = Inr resp) = (err \<noteq> None \<or> carries_State info))"
  using assms
  by (auto simp: IsRunning_def Inspect_def NewResponse_def info_State_Running_def carries_State_def
      split: option.splits)

theorem IsRunning_panics_iff_no_State_witness:
  "fst (IsRunning (demo_Monitor stateless) demo_world) = Inl NilPointerDereference
   \<and> fst (IsRunning (demo_Monitor (\<lparr>ContainerJSONBase = None\<rparr>, None)) demo_world) =
       Inl NilPointerDereference
   \<and> fst (IsRunning (demo_Monitor no_container) demo_world) \<noteq> Inl NilPointerDereference
   \<and> fst (IsRunning (demo_Monitor (inspected True)) demo_world) \<noteq> Inl NilPointerDereference"
  using
    IsRunning_panics_iff_no_State [of "demo_Monitor stateless" demo_world "fst stateless" None]
    IsRunning_panics_iff_no_State [of "demo_Monitor (\<lparr>ContainerJSONBase = None\<rparr>, None)"
      demo_world "\<lparr>ContainerJSONBase = None\<rparr>" None]
    IsRunning_panics_iff_no_State [of "demo_Monitor no_container" demo_world "fst no_container"
      "Some (Err ''No such container: game'')"]
    IsRunning_panics_iff_no_State [of "demo_Monitor (inspected True)" demo_world
      "fst (inspected True)" None]
  by (simp add: demo_Monitor_def inspected_def no_container_def stateless_def carries_State_def)

section \<open>RestoreSave\<close>



text \<open>
  C5. When the form value \<open>ckey\<close> or the form value \<open>date\<close> is empty (or both),
  RestoreSave answers \<open>success = false\<close> with "Invalid request" and leaves the world
  as it was: no script is run and nothing is added to the trace.
\<close>

theorem RestoreSave_invalid_request:
  assumes "FormValue r ''ckey'' = [] \<or> FormValue r ''date'' = []"
  shows "RestoreSave h m r w = (\<lparr>Success = False, Message = String ''Invalid request''\<rparr>, w)"
  using assms by (auto simp: RestoreSave_def NewResponse_def ToLower_eq_Nil)

theorem RestoreSave_invalid_request_witness:
  "RestoreSave (demo_host None no_repo) (demo_Monitor no_container)
      (demo_Request '''' ''2019-11-02'') demo_world =
     (\<lparr>Success = False, Message = String ''Invalid request''\<rparr>, demo_world)
   \<and> RestoreSave (demo_host None no_repo) (demo_Monitor no_container)
      (demo_Request ''Alice'' '''') demo_world =
     (\<lparr>Success = False, Message = String ''Invalid request''\<rparr>, demo_world)
   \<and> RestoreSave (demo_host None no_repo) (demo_Monitor no_container)
      (demo_Request '''' '''') demo_world =
     (\<lparr>Success = False, Message = String ''Invalid request''\<rparr>, demo_world)
   \<and> RestoreSave (demo_host None no_repo) (demo_Monitor no_container)
      \<lparr>Form = (\<lambda>key. [])\<rparr> demo_world =
     (\<lparr>Success = False, Message = String ''Invalid request''\<rparr>, demo_world)"
  using
    RestoreSave_invalid_request [of "demo_Request '''' ''2019-11-02''" "demo_host None no_repo"
      "demo_Monitor no_container" demo_world]
    RestoreSave_invalid_request [of "demo_Request ''Alice'' ''''" "demo_host None no_repo"
      "demo_Monitor no_container" demo_world]
    RestoreSave_invalid_request [of "demo_Request '''' ''''" "demo_host None no_repo"
      "demo_Monitor no_container" demo_world]
    RestoreSave_invalid_request [of "\<lparr>Form = (\<lambda>key. [])\<rparr>" "demo_host None no_repo"
      "demo_Monitor no_container" demo_world]
  by (simp add: demo_Request_def FormValue_def)

text \<open>
  C9. The validation of RestoreSave rejects the empty string only. When both form
  values are non-empty, be they white space alone, the response is not
  "Invalid request" and the restore script is run with the lower-cased ckey and the
  date as read. A ckey of white space alone is its own lower case, so it reaches the
  script unchanged, and so does a date of white space alone, although trimming would
  have emptied either.
\<close>

theorem RestoreSave_keeps_white_space:
  assumes "FormValue r ''ckey'' = ckey" and "FormValue r ''date'' = date"
    and "ckey \<noteq> []" and "date \<noteq> []"
  shows
    "fst (RestoreSave h m r w) \<noteq> \<lparr>Success = False, Message = String ''Invalid request''\<rparr>
     \<and> trace (snd (RestoreSave h m r w)) =
          trace w @ [Exec_CombinedOutput
            \<lparr>Args = [RestoreSaveScript (Conf m), strings_ToLower h ckey, date]\<rparr>]
     \<and> (list_all asciiSpace ckey \<longrightarrow>
          strings_ToLower h ckey = ckey \<and> strings_TrimSpace ckey = [])
     \<and> (list_all asciiSpace date \<longrightarrow> strings_TrimSpace date = [])"
  using assms
  by (auto simp: RestoreSave_def NewResponse_def ToLower_eq_Nil CombinedOutput_def Let_def
      exec_Command_def ToLower_asciiSpace TrimSpace_spaces split: prod.splits option.splits)

theorem RestoreSave_keeps_white_space_witness:
  "fst (RestoreSave (demo_host None no_repo) (demo_Monitor no_container)
          (demo_Request '' '' ''  '') demo_world) =
     \<lparr>Success = True, Message = String ''save restored''\<rparr>
   \<and> strings_TrimSpace '' '' = []
   \<and> strings_TrimSpace ''  '' = []
   \<and> trace (snd (RestoreSave (demo_host None no_repo) (demo_Monitor no_container)
          (demo_Request '' '' ''  '') demo_world)) =
       [Exec_CombinedOutput \<lparr>Args = [''./restoresave.sh'', '' '', ''  '']\<rparr>]"
proof -
  have lower: "strings_ToLower h '' '' = '' ''" for h :: "nat host"
    by code_simp
  show ?thesis
    using RestoreSave_keeps_white_space [of "demo_Request '' '' ''  ''" "'' ''" "''  ''"
        "demo_host None no_repo" "demo_Monitor no_container" demo_world]
    by (simp add: lower demo_host_def demo_Monitor_def demo_world_def demo_Conf_def
        demo_Request_def FormValue_def asciiSpace_def RestoreSave_def NewResponse_def
        CombinedOutput_def exec_Command_def Let_def)
qed

section \<open>Commit\<close>

lemma Commit_opened:
  assumes "git_PlainOpen h (GitDir (Conf m)) (ext w) = Inr repo"
    and "Head repo = Inr head"
    and "CommitObject repo (Reference_Hash head) = Inr commit"
  shows "Commit h m w =
     (Inr \<lparr>Success = True,
           Message = StringMap
             [''message'' \<mapsto>
                takeWhile (\<lambda>c. c \<noteq> CHR 0x0A) (strings_TrimSpace (Commit_Message commit)),
              ''date'' \<mapsto>
                time_Format h (When (Committer commit)) ''Mon Jan 02 15:04:05 2006 -0700'',
              ''sha'' \<mapsto> Hash_String (Commit_Hash commit)]\<rparr>,
      w\<lparr>trace := trace w @ [Git_PlainOpen (GitDir (Conf m)), Git_Head,
                              Git_CommitObject (Reference_Hash head)]\<rparr>)"
proof -
  obtain rest where
    "strings_SplitN (strings_TrimSpace (Commit_Message commit)) [CHR 0x0A] 2 =
       takeWhile (\<lambda>c. c \<noteq> CHR 0x0A) (strings_TrimSpace (Commit_Message commit)) # rest"
    using SplitN_first_line by blast
  with assms show ?thesis
    by (simp add: Commit_def PlainOpen_def repo_Head_def repo_CommitObject_def NewResponse_def)
qed

text \<open>
  C3, as the specification words it, fails: the summary Commit reports for the
  message "Fix bug " + line feed + "body" keeps the space before the line feed, whereas
  the text before the first line break with its surrounding white space trimmed is
  "Fix bug".
\<close>

theorem Commit_first_line_counterexample:
  "reported
     (fst (Commit (demo_host None (demo_repo ''Fix bug \<newline>body''))
        (demo_Monitor no_container) demo_world)) ''message'' = Some ''Fix bug ''
   \<and> spec_first_line ''Fix bug \<newline>body'' = ''Fix bug''
   \<and> reported
     (fst (Commit (demo_host None (demo_repo ''Fix bug \<newline>body''))
        (demo_Monitor no_container) demo_world)) ''message''
     \<noteq> Some (spec_first_line ''Fix bug \<newline>body'')"
proof -
  have code: "takeWhile (\<lambda>c. c \<noteq> CHR 0x0A) (strings_TrimSpace ''Fix bug \<newline>body'') = ''Fix bug ''"
    by code_simp
  have spec: "spec_first_line ''Fix bug \<newline>body'' = ''Fix bug''"
    by code_simp
  have "reported
     (fst (Commit (demo_host None (demo_repo ''Fix bug \<newline>body''))
        (demo_Monitor no_container) demo_world)) ''message'' = Some ''Fix bug ''"
    by (subst Commit_opened [where commit = "demo_commit ''Fix bug \<newline>body''"
          and head = demo_head and repo = "demo_Repository ''Fix bug \<newline>body''"])
      (simp_all add: demo_host_def demo_Monitor_def demo_Conf_def demo_repo_def demo_head_def
        demo_Repository_def demo_commit_def reported_def code)
  with spec show ?thesis by simp
qed

text \<open>
  C3, amended. When the repository opens, HEAD resolves and the commit loads, Commit
  answers \<open>success = true\<close> with a record whose \<open>message\<close> is the text before the
  first line feed of the commit message after the white space around the whole
  message has been trimmed, and whose \<open>sha\<close> is the hash of the loaded commit in
  lower-case hexadecimal, two digits for every byte of the hash.
\<close>

theorem Commit_reports_first_line_of_trimmed_message:
  assumes "git_PlainOpen h (GitDir (Conf m)) (ext w) = Inr repo"
    and "Head repo = Inr head"
    and "CommitObject repo (Reference_Hash head) = Inr commit"
  shows
    "(\<exists>resp. fst (Commit h m w) = Inr resp \<and> Success resp)
     \<and> reported (fst (Commit h m w)) ''message'' =
         Some (takeWhile (\<lambda>c. c \<noteq> CHR 0x0A) (strings_TrimSpace (Commit_Message commit)))
     \<and> reported (fst (Commit h m w)) ''sha'' = Some (Hash_String (Commit_Hash commit))
     \<and> length (Hash_String (Commit_Hash commit)) = 2 * length (Commit_Hash commit)
     \<and> set (Hash_String (Commit_Hash commit)) \<subseteq> set ''0123456789abcdef''"
proof -
  have "set (Hash_String (Commit_Hash commit)) \<subseteq> set ''0123456789abcdef''"
    using hex_digits [of "Commit_Hash commit"] by (simp add: Hash_String_def hextable_def)
  then show ?thesis
    by (simp add: Commit_opened [OF assms] reported_def Hash_String_def hex_length)
qed

theorem Commit_reports_first_line_of_trimmed_message_witness:
  "reported
     (fst (Commit (demo_host None (demo_repo ''Fix bug\<newline>\<newline>Longer body text''))
        (demo_Monitor no_container) demo_world)) ''message'' = Some ''Fix bug''
   \<and> reported
     (fst (Commit (demo_host None (demo_repo ''Fix bug\<newline>\<newline>Longer body text''))
        (demo_Monitor no_container) demo_world)) ''sha'' =
       Some ''1f2e3d4c5b6a798897a6b5c4d3e2f1000f10abcd''
   \<and> reported
     (fst (Commit (demo_host None (demo_repo (''  '' @ [CHR 0x0A] @ ''Fix bug ''  @ [CHR 0x0D, CHR 0x0A] @ ''body'' @ [CHR 0x0A])))
        (demo_Monitor no_container) demo_world)) ''message'' = Some (''Fix bug '' @ [CHR 0x0D])"
proof -
  have first: "takeWhile (\<lambda>c. c \<noteq> CHR 0x0A) (strings_TrimSpace ''Fix bug\<newline>\<newline>Longer body text'')
      = ''Fix bug''"
    by code_simp
  have second: "takeWhile (\<lambda>c. c \<noteq> CHR 0x0A)
      (strings_TrimSpace (''  '' @ [CHR 0x0A] @ ''Fix bug ''  @ [CHR 0x0D, CHR 0x0A] @ ''body'' @ [CHR 0x0A]))
      = ''Fix bug '' @ [CHR 0x0D]"
    by code_simp
  have sha: "Hash_String demo_hash = ''1f2e3d4c5b6a798897a6b5c4d3e2f1000f10abcd''"
    by code_simp
  show ?thesis
    using
      Commit_reports_first_line_of_trimmed_message [of
        "demo_host None (demo_repo ''Fix bug\<newline>\<newline>Longer body text'')"
        "demo_Monitor no_container" demo_world
        "demo_Repository ''Fix bug\<newline>\<newline>Longer body text''" demo_head
        "demo_commit ''Fix bug\<newline>\<newline>Longer body text''"]
      Commit_reports_first_line_of_trimmed_message [of
        "demo_host None (demo_repo (''  '' @ [CHR 0x0A] @ ''Fix bug ''  @ [CHR 0x0D, CHR 0x0A] @ ''body'' @ [CHR 0x0A]))"
        "demo_Monitor no_container" demo_world
        "demo_Repository (''  '' @ [CHR 0x0A] @ ''Fix bug ''  @ [CHR 0x0D, CHR 0x0A] @ ''body'' @ [CHR 0x0A])" demo_head
        "demo_commit (''  '' @ [CHR 0x0A] @ ''Fix bug ''  @ [CHR 0x0D, CHR 0x0A] @ ''body'' @ [CHR 0x0A])"]
      first second sha
    by (simp add: demo_host_def demo_Monitor_def demo_Conf_def demo_repo_def demo_head_def
        demo_Repository_def demo_commit_def)
qed

text \<open>
  C6. Commit stops at the first stage that fails. When the repository cannot be
  opened, when HEAD cannot be resolved or when the commit cannot be loaded, the
  response is \<open>success = false\<close> with the message "Failed to open git repo (e)",
  "Failed to get HEAD ref (e)" or "Failed to get HEAD commit (e)" for the error \<open>e\<close> of
  that stage, and the trace ends with the call that failed. A response with
  \<open>success = false\<close> comes from one of these three failures.
\<close>

theorem Commit_names_failed_stage:
  "(git_PlainOpen h (GitDir (Conf m)) (ext w) = Inl e \<longrightarrow>
      Commit h m w =
        (Inr \<lparr>Success = False,
              Message = String (''Failed to open git repo ('' @ Error e @ '')'')\<rparr>,
         w\<lparr>trace := trace w @ [Git_PlainOpen (GitDir (Conf m))]\<rparr>))
   \<and> (git_PlainOpen h (GitDir (Conf m)) (ext w) = Inr repo \<and> Head repo = Inl e \<longrightarrow>
      Commit h m w =
        (Inr \<lparr>Success = False,
              Message = String (''Failed to get HEAD ref ('' @ Error e @ '')'')\<rparr>,
         w\<lparr>trace := trace w @ [Git_PlainOpen (GitDir (Conf m)), Git_Head]\<rparr>))
   \<and> (git_PlainOpen h (GitDir (Conf m)) (ext w) = Inr repo \<and> Head repo = Inr head
        \<and> CommitObject repo (Reference_Hash head) = Inl e \<longrightarrow>
      Commit h m w =
        (Inr \<lparr>Success = False,
              Message = String (''Failed to get HEAD commit ('' @ Error e @ '')'')\<rparr>,
         w\<lparr>trace := trace w @ [Git_PlainOpen (GitDir (Conf m)), Git_Head,
                                 Git_CommitObject (Reference_Hash head)]\<rparr>))
   \<and> (fst (Commit h m w) = Inr resp \<and> \<not> Success resp \<longrightarrow>
        (case git_PlainOpen h (GitDir (Conf m)) (ext w) of
           Inl e \<Rightarrow> True
         | Inr repo \<Rightarrow>
             (case Head repo of
                Inl e \<Rightarrow> True
              | Inr head \<Rightarrow> isl (CommitObject repo (Reference_Hash head)))))"
proof -
  have "fst (Commit h m w) = Inr resp \<and> \<not> Success resp \<longrightarrow>
        (case git_PlainOpen h (GitDir (Conf m)) (ext w) of
           Inl e \<Rightarrow> True
         | Inr repo \<Rightarrow>
             (case Head repo of
                Inl e \<Rightarrow> True
              | Inr head \<Rightarrow> isl (CommitObject repo (Reference_Hash head))))"
  proof (intro impI, elim conjE)
    assume out: "fst (Commit h m w) = Inr resp" and failed: "\<not> Success resp"
    have "isl (CommitObject repo head_hash)"
      if "git_PlainOpen h (GitDir (Conf m)) (ext w) = Inr repo" and "Head repo = Inr head"
        and "head_hash = Reference_Hash head" for repo head head_hash
    proof (cases "CommitObject repo head_hash")
      case (Inl e)
      then show ?thesis by simp
    next
      case (Inr commit)
      with that out failed show ?thesis by (auto simp: Commit_opened)
    qed
    then show "case git_PlainOpen h (GitDir (Conf m)) (ext w) of
           Inl e \<Rightarrow> True
         | Inr repo \<Rightarrow>
             (case Head repo of
                Inl e \<Rightarrow> True
              | Inr head \<Rightarrow> isl (CommitObject repo (Reference_Hash head)))"
      by (simp split: sum.splits)
  qed
  then show ?thesis
    by (simp add: Commit_def PlainOpen_def repo_Head_def repo_CommitObject_def NewResponse_def)
qed

theorem Commit_names_failed_stage_witness:
  "Commit (demo_host None no_repo) (demo_Monitor no_container) demo_world =
     (Inr \<lparr>Success = False,
           Message = String ''Failed to open git repo (repository does not exist)''\<rparr>,
      \<lparr>ext = 0, trace = [Git_PlainOpen ''/srv/game'']\<rparr>)
   \<and> Commit (demo_host None unborn_repo) (demo_Monitor no_container) demo_world =
     (Inr \<lparr>Success = False,
           Message = String ''Failed to get HEAD ref (reference not found)''\<rparr>,
      \<lparr>ext = 0, trace = [Git_PlainOpen ''/srv/game'', Git_Head]\<rparr>)
   \<and> Commit (demo_host None dangling_repo) (demo_Monitor no_container) demo_world =
     (Inr \<lparr>Success = False,
           Message = String ''Failed to get HEAD commit (object not found)''\<rparr>,
      \<lparr>ext = 0, trace = [Git_PlainOpen ''/srv/game'', Git_Head, Git_CommitObject demo_hash]\<rparr>)"
  using
    Commit_names_failed_stage [of "demo_host None no_repo" "demo_Monitor no_container" demo_world
      "Err ''repository does not exist''"]
    Commit_names_failed_stage [of "demo_host None unborn_repo" "demo_Monitor no_container"
      demo_world "Err ''reference not found''"
      "\<lparr>Head = Inl (Err ''reference not found''),
        CommitObject = (\<lambda>h. Inl (Err ''object not found''))\<rparr>"]
    Commit_names_failed_stage [of "demo_host None dangling_repo" "demo_Monitor no_container"
      demo_world "Err ''object not found''"
      "\<lparr>Head = Inr demo_head, CommitObject = (\<lambda>h. Inl (Err ''object not found''))\<rparr>" demo_head]
  by (simp add: demo_host_def demo_Monitor_def demo_Conf_def demo_world_def no_repo_def
      unborn_repo_def dangling_repo_def demo_head_def)

section \<open>All operations\<close>

lemma Commit_never_panics: "\<exists>resp. fst (Commit h m w) = Inr resp"
proof (cases "git_PlainOpen h (GitDir (Conf m)) (ext w)")
  case (Inl e)
  then show ?thesis
    by (simp add: Commit_def PlainOpen_def)
next
  case opened: (Inr repo)
  show ?thesis
  proof (cases "Head repo")
    case (Inl e)
    with opened show ?thesis
      by (simp add: Commit_def PlainOpen_def repo_Head_def)
  next
    case head: (Inr head)
    show ?thesis
    proof (cases "CommitObject repo (Reference_Hash head)")
      case (Inl e)
      with opened head show ?thesis
        by (simp add: Commit_def PlainOpen_def repo_Head_def repo_CommitObject_def)
    next
      case (Inr commit)
      with opened head show ?thesis by (simp add: Commit_opened)
    qed
  qed
qed

lemma Commit_failure_is_String:
  assumes "fst (Commit h m w) = Inr resp" and "\<not> Success resp"
  shows "is_String (Message resp)"
proof (cases "git_PlainOpen h (GitDir (Conf m)) (ext w)")
  case (Inl e)
  with assms show ?thesis
    by (auto simp: Commit_def PlainOpen_def NewResponse_def)
next
  case opened: (Inr repo)
  show ?thesis
  proof (cases "Head repo")
    case (Inl e)
    with opened assms show ?thesis
      by (auto simp: Commit_def PlainOpen_def repo_Head_def NewResponse_def)
  next
    case head: (Inr head)
    show ?thesis
    proof (cases "CommitObject repo (Reference_Hash head)")
      case (Inl e)
      with opened head assms show ?thesis
        by (auto simp: Commit_def PlainOpen_def repo_Head_def repo_CommitObject_def
            NewResponse_def)
    next
      case (Inr commit)
      with opened head assms show ?thesis by (auto simp: Commit_opened)
    qed
  qed
qed

lemma IsRunning_Success: "fst (IsRunning m w) = Inr resp \<Longrightarrow> Success resp"
  by (auto simp: IsRunning_def Inspect_def NewResponse_def split: prod.splits sum.splits if_splits)

text \<open>
  C7. Whatever the host does, a response with \<open>success = false\<close> carries a string
  as its message, for each of Start, Stop, Update, RestoreSave and Commit; IsRunning
  never answers \<open>success = false\<close> at all.
\<close>

theorem failure_message_is_String:
  "(\<not> Success (fst (Start h m w)) \<longrightarrow> is_String (Message (fst (Start h m w))))
   \<and> (\<not> Success (fst (Stop h m w)) \<longrightarrow> is_String (Message (fst (Stop h m w))))
   \<and> (\<not> Success (fst (Update h m w)) \<longrightarrow> is_String (Message (fst (Update h m w))))
   \<and> (\<not> Success (fst (RestoreSave h m r w)) \<longrightarrow>
        is_String (Message (fst (RestoreSave h m r w))))
   \<and> (fst (Commit h m w) = Inr resp \<and> \<not> Success resp \<longrightarrow> is_String (Message resp))
   \<and> (fst (IsRunning m w) = Inr resp \<longrightarrow> Success resp)"
proof -
  have "is_String (Message (fst (Start h m w)))"
    by (simp add: Start_def NewResponse_def split: prod.splits option.splits)
  moreover have "is_String (Message (fst (Stop h m w)))"
    by (simp add: Stop_def NewResponse_def split: prod.splits option.splits)
  moreover have "is_String (Message (fst (Update h m w)))"
    by (simp add: Update_def NewResponse_def split: prod.splits option.splits)
  moreover have "is_String (Message (fst (RestoreSave h m r w)))"
    by (simp add: RestoreSave_def NewResponse_def Let_def split: prod.splits option.splits)
  ultimately show ?thesis
    using Commit_failure_is_String [of h m w resp] IsRunning_Success [of m w resp] by blast
qed

theorem failure_message_is_String_witness:
  "fst (Start (demo_host (Some (Err ''exit status 1'')) no_repo) (demo_Monitor no_container)
          demo_world) =
     \<lparr>Success = False, Message = String ''Server failed to start (exit status 1)''\<rparr>
   \<and> is_String (Message (fst (Start (demo_host (Some (Err ''exit status 1'')) no_repo)
          (demo_Monitor no_container) demo_world)))
   \<and> is_String (Message (fst (Stop (demo_host (Some (Err ''exit status 1'')) no_repo)
          (demo_Monitor no_container) demo_world)))
   \<and> is_String (Message (fst (Update (demo_host (Some (Err ''exit status 1'')) no_repo)
          (demo_Monitor no_container) demo_world)))
   \<and> is_String (Message (fst (RestoreSave (demo_host (Some (Err ''exit status 1'')) no_repo)
          (demo_Monitor no_container) (demo_Request ''Alice'' '''') demo_world)))
   \<and> is_String (Message (fst (RestoreSave (demo_host (Some (Err ''exit status 1'')) no_repo)
          (demo_Monitor no_container) (demo_Request ''Alice'' ''2019-11-02'') demo_world)))
   \<and> fst (Commit (demo_host (Some (Err ''exit status 1'')) no_repo) (demo_Monitor no_container)
          demo_world) =
     Inr \<lparr>Success = False,
          Message = String ''Failed to open git repo (repository does not exist)''\<rparr>
   \<and> fst (IsRunning (demo_Monitor no_container) demo_world) =
     Inr \<lparr>Success = True, Message = Bool False\<rparr>"
proof -
  have lower: "strings_ToLower h ''Alice'' = ''alice''" for h :: "nat host"
    by code_simp
  show ?thesis
    using failure_message_is_String [of "demo_host (Some (Err ''exit status 1'')) no_repo"
        "demo_Monitor no_container" demo_world "demo_Request ''Alice'' ''''"
        "\<lparr>Success = False,
          Message = String ''Failed to open git repo (repository does not exist)''\<rparr>"]
      failure_message_is_String [of "demo_host (Some (Err ''exit status 1'')) no_repo"
        "demo_Monitor no_container" demo_world "demo_Request ''Alice'' ''2019-11-02''"
        "\<lparr>Success = True, Message = Bool False\<rparr>"]
    by (simp add: lower Start_def Stop_def Update_def RestoreSave_def Commit_def IsRunning_def
        Run_def CombinedOutput_def PlainOpen_def Inspect_def NewResponse_def Let_def
        demo_host_def demo_Monitor_def demo_Conf_def demo_world_def demo_Request_def
        FormValue_def no_repo_def no_container_def exec_Command_def)
qed

end
